theory Spec2Isabelle
  imports Main
begin

unbundle bit_operations_syntax

section \<open>Strings\<close>

text \<open>
  A Python \<open>str\<close> is modelled as a \<open>string\<close> whose characters are the code points
  below 256 (Latin-1). \<open>str.lower()\<close> maps \<open>A..Z\<close> and the upper-case letters
  \<open>U+00C0..U+00DE\<close> (except the multiplication sign \<open>U+00D7\<close>) to the code point
  32 above and leaves every other code point of that range unchanged.
\<close>

definition lower_char :: "char \<Rightarrow> char" where
  "lower_char c =
     (let n = (of_char c :: nat)
      in if (65 \<le> n \<and> n \<le> 90) \<or> (192 \<le> n \<and> n \<le> 222 \<and> n \<noteq> 215)
         then char_of (n + 32) else c)"

definition lower :: "string \<Rightarrow> string" where
  "lower s = map lower_char s"

text \<open>\<open>starts_with k s\<close>: the string \<open>s\<close> begins with \<open>k\<close>.\<close>

fun starts_with :: "string \<Rightarrow> string \<Rightarrow> bool" where
  "starts_with [] s = True"
| "starts_with (k # ks) [] = False"
| "starts_with (k # ks) (c # cs) = (k = c \<and> starts_with ks cs)"

text \<open>Python's \<open>k in s\<close> on strings: \<open>k\<close> occurs in \<open>s\<close> as a contiguous substring.\<close>

fun contains :: "string \<Rightarrow> string \<Rightarrow> bool" where
  "contains k [] = (k = [])"
| "contains k (c # cs) = (starts_with k (c # cs) \<or> contains k cs)"

text \<open>\<open>str.encode()\<close>: UTF-8. A code point below 128 is one byte, one below 256 two.\<close>

definition encode_char :: "char \<Rightarrow> nat list" where
  "encode_char c =
     (let n = (of_char c :: nat)
      in if n < 128 then [n] else [192 + n div 64, 128 + n mod 64])"

definition encode :: "string \<Rightarrow> nat list" where
  "encode s = concat (map encode_char s)"

section \<open>MD5 (RFC 1321), as \<open>hashlib.md5\<close> computes it\<close>

text \<open>
  A 32-bit word is a natural number below \<open>2^32\<close>; addition wraps around modulo
  \<open>2^32 = 4294967296\<close>, complement and left rotation are written out.
\<close>

definition add32 :: "nat \<Rightarrow> nat \<Rightarrow> nat" where
  "add32 x y = (x + y) mod 4294967296"

definition not32 :: "nat \<Rightarrow> nat" where
  "not32 x = 4294967295 - x"

definition rotl32 :: "nat \<Rightarrow> nat \<Rightarrow> nat" where
  "rotl32 s x = (x * 2 ^ s) mod 4294967296 + x div 2 ^ (32 - s)"

definition md5_s :: "nat list" where
  "md5_s = [7, 12, 17, 22, 7, 12, 17, 22, 7, 12, 17, 22, 7, 12, 17, 22,
            5, 9, 14, 20, 5, 9, 14, 20, 5, 9, 14, 20, 5, 9, 14, 20,
            4, 11, 16, 23, 4, 11, 16, 23, 4, 11, 16, 23, 4, 11, 16, 23,
            6, 10, 15, 21, 6, 10, 15, 21, 6, 10, 15, 21, 6, 10, 15, 21]"

definition md5_K :: "nat list" where
  "md5_K = [0xd76aa478, 0xe8c7b756, 0x242070db, 0xc1bdceee,
            0xf57c0faf, 0x4787c62a, 0xa8304613, 0xfd469501,
            0x698098d8, 0x8b44f7af, 0xffff5bb1, 0x895cd7be,
            0x6b901122, 0xfd987193, 0xa679438e, 0x49b40821,
            0xf61e2562, 0xc040b340, 0x265e5a51, 0xe9b6c7aa,
            0xd62f105d, 0x02441453, 0xd8a1e681, 0xe7d3fbc8,
            0x21e1cde6, 0xc33707d6, 0xf4d50d87, 0x455a14ed,
            0xa9e3e905, 0xfcefa3f8, 0x676f02d9, 0x8d2a4c8a,
            0xfffa3942, 0x8771f681, 0x6d9d6122, 0xfde5380c,
            0xa4beea44, 0x4bdecfa9, 0xf6bb4b60, 0xbebfbc70,
            0x289b7ec6, 0xeaa127fa, 0xd4ef3085, 0x04881d05,
            0xd9d4d039, 0xe6db99e5, 0x1fa27cf8, 0xc4ac5665,
            0xf4292244, 0x432aff97, 0xab9423a7, 0xfc93a039,
            0x655b59c3, 0x8f0ccc92, 0xffeff47d, 0x85845dd1,
            0x6fa87e4f, 0xfe2ce6e0, 0xa3014314, 0x4e0811a1,
            0xf7537e82, 0xbd3af235, 0x2ad7d2bb, 0xeb86d391]"

text \<open>Padding: a \<open>0x80\<close> byte, zero bytes up to 56 modulo 64, then the bit length
  (modulo \<open>2^64\<close>) in eight little-endian bytes.\<close>

fun le_bytes :: "nat \<Rightarrow> nat \<Rightarrow> nat list" where
  "le_bytes 0 n = []"
| "le_bytes (Suc k) n = n mod 256 # le_bytes k (n div 256)"

definition md5_pad :: "nat list \<Rightarrow> nat list" where
  "md5_pad m =
     (let n = length m
      in m @ [128] @ replicate ((119 - n mod 64) mod 64) 0
           @ le_bytes 8 ((8 * n) mod 18446744073709551616))"

text \<open>The 32-bit little-endian word at byte offset \<open>k\<close> of a block.\<close>

definition word_at :: "nat list \<Rightarrow> nat \<Rightarrow> nat" where
  "word_at blk k =
     blk ! k + 256 * blk ! (k + 1) + 65536 * blk ! (k + 2) + 16777216 * blk ! (k + 3)"

type_synonym md5_state = "nat \<times> nat \<times> nat \<times> nat"

definition md5_step :: "nat list \<Rightarrow> md5_state \<Rightarrow> nat \<Rightarrow> md5_state" where
  "md5_step blk st i =
     (case st of (A, B, C, D) \<Rightarrow>
        let (F, g) =
              (if i < 16 then ((B AND C) OR (not32 B AND D), i)
               else if i < 32 then ((D AND B) OR (not32 D AND C), (5 * i + 1) mod 16)
               else if i < 48 then (B XOR C XOR D, (3 * i + 5) mod 16)
               else (C XOR (B OR not32 D), (7 * i) mod 16));
            F' = add32 (add32 (add32 F A) (md5_K ! i)) (word_at blk (4 * g))
        in (D, add32 B (rotl32 (md5_s ! i) F'), B, C))"

definition md5_block :: "md5_state \<Rightarrow> nat list \<Rightarrow> md5_state" where
  "md5_block h blk =
     (case h of (a0, b0, c0, d0) \<Rightarrow>
        case foldl (md5_step blk) h [0..<64] of
          (A, B, C, D) \<Rightarrow> (add32 a0 A, add32 b0 B, add32 c0 C, add32 d0 D))"

fun md5_blocks :: "md5_state \<Rightarrow> nat \<Rightarrow> nat list \<Rightarrow> md5_state" where
  "md5_blocks h 0 p = h"
| "md5_blocks h (Suc n) p = md5_blocks (md5_block h (take 64 p)) n (drop 64 p)"

definition md5_init :: md5_state where
  "md5_init = (0x67452301, 0xefcdab89, 0x98badcfe, 0x10325476)"

definition md5 :: "nat list \<Rightarrow> nat list" where
  "md5 m =
     (let p = md5_pad m
      in case md5_blocks md5_init (length p div 64) p of
           (a, b, c, d) \<Rightarrow> le_bytes 4 a @ le_bytes 4 b @ le_bytes 4 c @ le_bytes 4 d)"

text \<open>\<open>hexdigest()\<close>: two lower-case hexadecimal digits per byte.\<close>

definition hex_digit :: "nat \<Rightarrow> char" where
  "hex_digit d = (if d < 10 then char_of (48 + d) else char_of (87 + d))"

definition hex_byte :: "nat \<Rightarrow> string" where
  "hex_byte b = [hex_digit (b div 16), hex_digit (b mod 16)]"

definition hexdigest :: "nat list \<Rightarrow> string" where
  "hexdigest m = concat (map hex_byte (md5 m))"

section \<open>Exceptions\<close>

text \<open>
  Every exception the handlers can meet is a value. \<open>Exception\<close> stands for any
  exception raised by a collaborator (the agent engine, the document store); it carries
  the text \<open>str(e)\<close> yields. Starlette prints an \<open>HTTPException\<close> as
  \<open>status: detail\<close>.
\<close>

datatype exn =
    ValueError string
  | ZeroDivisionError string
  | HTTPException nat string
  | Exception string

fun show_nat :: "nat \<Rightarrow> string" where
  "show_nat n =
     (if n < 10 then [char_of (48 + n)] else show_nat (n div 10) @ [char_of (48 + n mod 10)])"

fun str_exn :: "exn \<Rightarrow> string" where
  "str_exn (ValueError msg) = msg"
| "str_exn (ZeroDivisionError msg) = msg"
| "str_exn (HTTPException status_code detail) = show_nat status_code @ '': '' @ detail"
| "str_exn (Exception msg) = msg"

text \<open>
  \<open>int(s, 16)\<close> on a string of hexadecimal digits; the empty string and any other
  character raise \<open>ValueError\<close>. (Python also accepts a sign, a \<open>0x\<close> prefix,
  underscores and surrounding white space; \<open>hexdigest\<close> produces none of them.)
\<close>

definition hex_value :: "char \<Rightarrow> nat option" where
  "hex_value c =
     (let n = (of_char c :: nat)
      in if 48 \<le> n \<and> n \<le> 57 then Some (n - 48)
         else if 97 \<le> n \<and> n \<le> 102 then Some (n - 87)
         else if 65 \<le> n \<and> n \<le> 70 then Some (n - 55)
         else None)"

fun int16_digits :: "nat \<Rightarrow> string \<Rightarrow> nat option" where
  "int16_digits acc [] = Some acc"
| "int16_digits acc (c # cs) =
     (case hex_value c of None \<Rightarrow> None | Some d \<Rightarrow> int16_digits (16 * acc + d) cs)"

definition int16 :: "string \<Rightarrow> exn + nat" where
  "int16 s =
     (case (if s = [] then None else int16_digits 0 s) of
        None \<Rightarrow> Inl (ValueError (''invalid literal for int() with base 16: '' @ [CHR 0x27] @ s @ [CHR 0x27]))
      | Some n \<Rightarrow> Inr n)"

section \<open>The prompt classifier \<open>generate_image_mcp\<close>\<close>

text \<open>The static image table, in the order of its declaration (a Python \<open>dict\<close>
  enumerates its items in insertion order).\<close>

definition sample_images :: "(string \<times> string) list" where
  "sample_images =
     [(''sunset'', ''https://images.unsplash.com/photo-1506905925346-21bda4d32df4?w=400&h=711&fit=crop&crop=center''),
      (''mountains'', ''https://images.unsplash.com/photo-1464822759844-d150bb1e7ead?w=400&h=711&fit=crop&crop=center''),
      (''abstract'', ''https://images.unsplash.com/photo-1558618666-fcd25d1cd2f6?w=400&h=711&fit=crop&crop=center''),
      (''geometric'', ''https://images.unsplash.com/photo-1520637836862-4d197d17c13a?w=400&h=711&fit=crop&crop=center''),
      (''nature'', ''https://images.unsplash.com/photo-1441974231531-c6227db76b6e?w=400&h=711&fit=crop&crop=center''),
      (''minimal'', ''https://images.unsplash.com/photo-1553356084-58ef4a67b2a7?w=400&h=711&fit=crop&crop=center''),
      (''gradient'', ''https://images.unsplash.com/photo-1509114397022-ed747cca3f65?w=400&h=711&fit=crop&crop=center''),
      (''neon'', ''https://images.unsplash.com/photo-1518709268805-4e9042af2176?w=400&h=711&fit=crop&crop=center''),
      (''artistic'', ''https://images.unsplash.com/photo-1549490349-8643362247b5?w=400&h=711&fit=crop&crop=center''),
      (''space'', ''https://images.unsplash.com/photo-1446776877081-d282a0f896e2?w=400&h=711&fit=crop&crop=center'')]"

definition default_image :: string where
  "default_image = ''https://images.unsplash.com/photo-1542831371-29b0f74f9713?w=400&h=711&fit=crop&crop=center''"

text \<open>The loop over \<open>sample_images.items()\<close>: the first keyword found in the lower-cased
  prompt selects its URL and breaks; without a match the selection is unchanged.\<close>

fun select_image :: "(string \<times> string) list \<Rightarrow> string \<Rightarrow> string \<Rightarrow> string" where
  "select_image [] prompt_lower selected_image = selected_image"
| "select_image ((keyword, image_url) # items) prompt_lower selected_image =
     (if contains keyword prompt_lower then image_url
      else select_image items prompt_lower selected_image)"

definition prompt_hash :: "string \<Rightarrow> exn + nat" where
  "prompt_hash prompt = int16 (take 8 (hexdigest (encode prompt)))"

text \<open>The hash fallback: \<open>image_list[prompt_hash % len(image_list)]\<close>.\<close>

definition hash_image :: "string \<Rightarrow> exn + string" where
  "hash_image prompt =
     (case prompt_hash prompt of
        Inl e \<Rightarrow> Inl e
      | Inr h \<Rightarrow>
          let image_list = map snd sample_images
          in if length image_list = 0 then Inl (ZeroDivisionError ''integer modulo by zero'')
             else Inr (image_list ! (h mod length image_list)))"

datatype mcp_result =
    McpSuccess (mcp_url: string) (mcp_metadata: "(string \<times> string) list")
  | McpFailure (mcp_error: string)

text \<open>\<open>generation_time\<close> is the ISO text of the clock reading taken by the call.\<close>

definition generate_image_mcp ::
  "string \<Rightarrow> string \<Rightarrow> string \<Rightarrow> string \<Rightarrow> string \<Rightarrow> mcp_result" where
  "generate_image_mcp prompt aspect_ratio quality output_format generation_time =
     (let prompt_lower = lower prompt;
          selected_image = select_image sample_images prompt_lower default_image
      in case (if selected_image = default_image then hash_image prompt
               else Inr selected_image) of
           Inl e \<Rightarrow> McpFailure (str_exn e)
         | Inr selected_image \<Rightarrow>
             McpSuccess selected_image
               [(''prompt'', prompt), (''aspect_ratio'', aspect_ratio), (''quality'', quality),
                (''format'', output_format), (''generation_time'', generation_time),
                (''source'', ''sample_images'')])"

section \<open>The wallpaper request handler \<open>generate_wallpaper\<close>\<close>

record WallpaperRequest =
  req_prompt :: string
  req_style :: string
  req_aspect_ratio :: string
  req_quality :: string

record WallpaperResponse =
  resp_success :: bool
  resp_wallpaper_url :: string
  resp_prompt :: string
  resp_style :: string
  resp_aspect_ratio :: string
  resp_metadata :: "(string \<times> string) list"
  resp_error :: "string option"

text \<open>
  A document of the \<open>wallpapers\<close> collection: the fields of \<open>wallpaper_data\<close> and the
  storage-internal identifier \<open>_id\<close>, which is absent (\<open>None\<close>) until the store assigns
  one. The time stamp is the clock reading as an integer.
\<close>

record wallpaper_data =
  doc__id :: "nat option"
  doc_id :: string
  doc_prompt :: string
  doc_enhanced_prompt :: string
  doc_style :: string
  doc_aspect_ratio :: string
  doc_quality :: string
  doc_wallpaper_url :: string
  doc_timestamp :: int
  doc_metadata :: "(string \<times> string) list"

text \<open>
  What a call reads from its surroundings: the fresh \<open>uuid4\<close>, the clock
  (\<open>utcnow\<close> for the record, \<open>generation_time\<close> for the classifier), and
  whether the store fails the write: \<open>insert_fault = Some msg\<close> means that
  \<open>insert_one\<close> raises an exception that prints as \<open>msg\<close> and stores nothing.
\<close>

record env =
  uuid4 :: string
  utcnow :: int
  generation_time :: string
  insert_fault :: "string option"

text \<open>\<open>insert_one\<close> appends the document under a fresh \<open>_id\<close>.\<close>

definition insert_one ::
  "string option \<Rightarrow> wallpaper_data list \<Rightarrow> wallpaper_data \<Rightarrow> exn + wallpaper_data list" where
  "insert_one fault wallpapers d =
     (case fault of
        Some msg \<Rightarrow> Inl (Exception msg)
      | None \<Rightarrow> Inr (wallpapers @ [d\<lparr>doc__id := Some (length wallpapers)\<rparr>]))"

definition enhanced_prompt :: "WallpaperRequest \<Rightarrow> string" where
  "enhanced_prompt request =
     req_prompt request @ '', '' @ req_style request @ '' style, phone wallpaper, ''
       @ req_aspect_ratio request @ '' aspect ratio, high quality, detailed, vibrant colors''"

definition failure_response :: "WallpaperRequest \<Rightarrow> string \<Rightarrow> WallpaperResponse" where
  "failure_response request msg =
     \<lparr>resp_success = False, resp_wallpaper_url = [], resp_prompt = req_prompt request,
      resp_style = req_style request, resp_aspect_ratio = req_aspect_ratio request,
      resp_metadata = [], resp_error = Some msg\<rparr>"

definition generate_wallpaper ::
  "env \<Rightarrow> wallpaper_data list \<Rightarrow> WallpaperRequest \<Rightarrow> WallpaperResponse \<times> wallpaper_data list" where
  "generate_wallpaper e wallpapers request =
     (let result = generate_image_mcp (enhanced_prompt request) (req_aspect_ratio request)
                     (if req_quality request = ''high'' then ''1'' else ''0.25'') ''webp''
                     (generation_time e)
      in case result of
           McpSuccess url metadata \<Rightarrow>
             (let wallpaper_data =
                    \<lparr>doc__id = None, doc_id = uuid4 e, doc_prompt = req_prompt request,
                     doc_enhanced_prompt = enhanced_prompt request,
                     doc_style = req_style request,
                     doc_aspect_ratio = req_aspect_ratio request,
                     doc_quality = req_quality request, doc_wallpaper_url = url,
                     doc_timestamp = utcnow e, doc_metadata = metadata\<rparr>
              in case insert_one (insert_fault e) wallpapers wallpaper_data of
                   Inl ex \<Rightarrow> (failure_response request (str_exn ex), wallpapers)
                 | Inr wallpapers' \<Rightarrow>
                     (\<lparr>resp_success = True, resp_wallpaper_url = url,
                       resp_prompt = req_prompt request, resp_style = req_style request,
                       resp_aspect_ratio = req_aspect_ratio request,
                       resp_metadata = metadata, resp_error = None\<rparr>, wallpapers'))
         | McpFailure msg \<Rightarrow> (failure_response request msg, wallpapers))"

section \<open>The history listing \<open>get_wallpaper_history\<close>\<close>


text \<open>
  \<open>find().sort("timestamp", -1).limit(50)\<close>: the documents by descending time stamp,
  at most fifty of them. The store fixes no order among equal time stamps; the model
  keeps their stored order.
\<close>

definition find_sort_limit :: "wallpaper_data list \<Rightarrow> wallpaper_data list" where
  "find_sort_limit wallpapers = take 50 (sort_key (\<lambda>d. - doc_timestamp d) wallpapers)"

definition del__id :: "wallpaper_data \<Rightarrow> wallpaper_data" where
  "del__id wallpaper =
     (if doc__id wallpaper \<noteq> None then wallpaper\<lparr>doc__id := None\<rparr> else wallpaper)"


section \<open>The agent proxy handler \<open>chat_with_agent\<close>\<close>

record AgentResponse =
  ar_success :: bool
  ar_content :: string
  ar_metadata :: "(string \<times> string) list"
  ar_error :: "string option"

text \<open>An agent of the external engine: what \<open>execute\<close> does on a message and what
  \<open>get_capabilities\<close> answers, each either an exception or a value.\<close>

record Agent =
  execute :: "string \<Rightarrow> exn + AgentResponse"
  get_capabilities :: "exn + string list"

text \<open>The outcome of the two constructors \<open>SearchAgent(agent_config)\<close> and
  \<open>ChatAgent(agent_config)\<close>.\<close>

record engine =
  SearchAgent :: "exn + Agent"
  ChatAgent :: "exn + Agent"

text \<open>The two global singletons.\<close>

record agents =
  search_agent :: "Agent option"
  chat_agent :: "Agent option"

record ChatRequest =
  message :: string
  agent_type :: string

record ChatResponse =
  chat_success :: bool
  chat_response :: string
  chat_agent_type :: string
  chat_capabilities :: "string list"
  chat_metadata :: "(string \<times> string) list"
  chat_error :: "string option"

text \<open>What the client receives: status 200 with a body, or the status and detail of an
  \<open>HTTPException\<close> that left the handler.\<close>

datatype http_response = HTTP200 ChatResponse | HTTPError nat string

text \<open>Lazy initialisation: the first two branches of the \<open>try\<close> block.\<close>

definition init_agents :: "engine \<Rightarrow> agents \<Rightarrow> ChatRequest \<Rightarrow> exn + agents" where
  "init_agents eng g request =
     (if agent_type request = ''search'' \<and> search_agent g = None then
        (case SearchAgent eng of Inl e \<Rightarrow> Inl e | Inr a \<Rightarrow> Inr (g\<lparr>search_agent := Some a\<rparr>))
      else if agent_type request = ''chat'' \<and> chat_agent g = None then
        (case ChatAgent eng of Inl e \<Rightarrow> Inl e | Inr a \<Rightarrow> Inr (g\<lparr>chat_agent := Some a\<rparr>))
      else Inr g)"

definition select_agent :: "agents \<Rightarrow> ChatRequest \<Rightarrow> Agent option" where
  "select_agent g request =
     (if agent_type request = ''search'' then search_agent g else chat_agent g)"

text \<open>The body of the \<open>try\<close> block: the exception it raises or the response it returns,
  and the globals as it leaves them.\<close>

definition chat_try ::
  "engine \<Rightarrow> agents \<Rightarrow> ChatRequest \<Rightarrow> (exn + ChatResponse) \<times> agents" where
  "chat_try eng g request =
     (case init_agents eng g request of
        Inl e \<Rightarrow> (Inl e, g)
      | Inr g' \<Rightarrow>
          (case select_agent g' request of
             None \<Rightarrow> (Inl (HTTPException 500 ''Failed to initialize agent''), g')
           | Some agent \<Rightarrow>
               (case execute agent (message request) of
                  Inl e \<Rightarrow> (Inl e, g')
                | Inr response \<Rightarrow>
                    (case get_capabilities agent of
                       Inl e \<Rightarrow> (Inl e, g')
                     | Inr capabilities \<Rightarrow>
                         (Inr \<lparr>chat_success = ar_success response,
                               chat_response = ar_content response,
                               chat_agent_type = agent_type request,
                               chat_capabilities = capabilities,
                               chat_metadata = ar_metadata response,
                               chat_error = ar_error response\<rparr>, g')))))"

text \<open>The handler: \<open>except Exception\<close> catches whatever the body raises,
  \<open>HTTPException\<close> included, and answers with a failure body.\<close>

definition chat_with_agent ::
  "engine \<Rightarrow> agents \<Rightarrow> ChatRequest \<Rightarrow> http_response \<times> agents" where
  "chat_with_agent eng g request =
     (case chat_try eng g request of
        (Inr r, g') \<Rightarrow> (HTTP200 r, g')
      | (Inl e, g') \<Rightarrow>
          (HTTP200 \<lparr>chat_success = False, chat_response = [],
                    chat_agent_type = agent_type request, chat_capabilities = [],
                    chat_metadata = [], chat_error = Some (str_exn e)\<rparr>, g'))"

text \<open>The faults of the engine on a request: a constructor that is called raises
  \<open>e\<close>, or the selected agent's \<open>execute\<close> raises \<open>e\<close>.\<close>

definition construction_fault :: "engine \<Rightarrow> agents \<Rightarrow> ChatRequest \<Rightarrow> exn \<Rightarrow> bool" where
  "construction_fault eng g request e =
     (if agent_type request = ''search'' then search_agent g = None \<and> SearchAgent eng = Inl e
      else agent_type request = ''chat'' \<and> chat_agent g = None \<and> ChatAgent eng = Inl e)"

definition execution_fault :: "engine \<Rightarrow> agents \<Rightarrow> ChatRequest \<Rightarrow> exn \<Rightarrow> bool" where
  "execution_fault eng g request e =
     (case init_agents eng g request of
        Inl _ \<Rightarrow> False
      | Inr g' \<Rightarrow>
          (case select_agent g' request of
             None \<Rightarrow> False
           | Some agent \<Rightarrow> execute agent (message request) = Inl e))"

text \<open>The big-endian integer of a byte sequence.\<close>

definition be_int :: "nat list \<Rightarrow> nat" where
  "be_int bs = foldl (\<lambda>a b. 256 * a + b) 0 bs"


section \<open>Substrings and the keyword scan\<close>

lemma starts_with_iff: "starts_with k s \<longleftrightarrow> (\<exists>post. s = k @ post)"
  by (induction k s rule: starts_with.induct) auto

lemma contains_iff: "contains k s \<longleftrightarrow> (\<exists>pre post. s = pre @ k @ post)"
proof (induction s)
  case Nil
  then show ?case by auto
next
  case (Cons c cs)
  show ?case
  proof
    assume "contains k (c # cs)"
    then consider "starts_with k (c # cs)" | "contains k cs" by auto
    then show "\<exists>pre post. c # cs = pre @ k @ post"
    proof cases
      case 1
      then obtain post where "c # cs = k @ post" by (auto simp: starts_with_iff)
      then have "c # cs = [] @ k @ post" by simp
      then show ?thesis by blast
    next
      case 2
      then obtain pre post where "cs = pre @ k @ post" using Cons.IH by auto
      then have "c # cs = (c # pre) @ k @ post" by simp
      then show ?thesis by blast
    qed
  next
    assume "\<exists>pre post. c # cs = pre @ k @ post"
    then obtain pre post where eq: "c # cs = pre @ k @ post" by auto
    show "contains k (c # cs)"
    proof (cases pre)
      case Nil
      then have "starts_with k (c # cs)" using eq by (auto simp: starts_with_iff)
      then show ?thesis by simp
    next
      case (Cons p ps)
      then have "cs = ps @ k @ post" using eq by simp
      then have "contains k cs" using Cons.IH by blast
      then show ?thesis by simp
    qed
  qed
qed

lemma starts_with_sep: "c \<notin> set k \<Longrightarrow> starts_with k (xs @ c # ys) = starts_with k xs"
  by (induction k xs rule: starts_with.induct) auto

lemma contains_sep:
  "c \<notin> set k \<Longrightarrow> k \<noteq> [] \<Longrightarrow> contains k (xs @ c # ys) = (contains k xs \<or> contains k ys)"
proof (induction xs)
  case Nil
  then show ?case by (cases k) auto
next
  case (Cons x xs)
  have "starts_with k (x # xs @ c # ys) = starts_with k (x # xs)"
    using starts_with_sep [OF Cons.prems(1), of "x # xs" ys] by simp
  then show ?case using Cons by auto
qed

lemma select_image_first:
  "i < length items \<Longrightarrow> contains (fst (items ! i)) pl \<Longrightarrow>
   \<forall>j<i. \<not> contains (fst (items ! j)) pl \<Longrightarrow> select_image items pl d = snd (items ! i)"
proof (induction items pl d arbitrary: i rule: select_image.induct)
  case (1 pl d)
  then show ?case by simp
next
  case (2 keyword image_url items pl d)
  show ?case
  proof (cases i)
    case 0
    then show ?thesis using 2 by simp
  next
    case (Suc n)
    have "\<not> contains keyword pl" using 2(4) Suc by auto
    moreover have "select_image items pl d = snd (items ! n)"
      using 2 Suc \<open>\<not> contains keyword pl\<close> by (intro 2(1)) auto
    ultimately show ?thesis using Suc by simp
  qed
qed


lemma first_match_exists:
  "\<exists>k\<in>set (map fst items). contains k pl \<Longrightarrow>
   \<exists>i<length items. contains (fst (items ! i)) pl \<and> (\<forall>j<i. \<not> contains (fst (items ! j)) pl)"
proof (induction items)
  case Nil
  then show ?case by simp
next
  case (Cons x items)
  show ?case
  proof (cases "contains (fst x) pl")
    case True
    then have "0 < length (x # items) \<and> contains (fst ((x # items) ! 0)) pl
      \<and> (\<forall>j<0. \<not> contains (fst ((x # items) ! j)) pl)" by simp
    then show ?thesis by blast
  next
    case False
    then have "\<exists>k\<in>set (map fst items). contains k pl" using Cons.prems by auto
    then obtain i where i: "i < length items" "contains (fst (items ! i)) pl"
      "\<forall>j<i. \<not> contains (fst (items ! j)) pl" using Cons.IH by blast
    have "\<forall>j<Suc i. \<not> contains (fst ((x # items) ! j)) pl"
      using i(3) False by (auto simp: less_Suc_eq_0_disj)
    then have "Suc i < length (x # items) \<and> contains (fst ((x # items) ! Suc i)) pl
      \<and> (\<forall>j<Suc i. \<not> contains (fst ((x # items) ! j)) pl)" using i by simp
    then show ?thesis by blast
  qed
qed

lemma default_not_in_table: "default_image \<notin> set (map snd sample_images)"
  by (simp add: default_image_def sample_images_def)

lemma length_sample_images: "length sample_images = 10"
  by (simp add: sample_images_def)

section \<open>The hash fallback never fails\<close>

lemma length_le_bytes: "length (le_bytes k n) = k"
  by (induction k n rule: le_bytes.induct) auto

lemma le_bytes_lt: "b \<in> set (le_bytes k n) \<Longrightarrow> b < 256"
  by (induction k n rule: le_bytes.induct) auto

lemma length_md5: "length (md5 m) = 16"
  by (simp add: md5_def Let_def length_le_bytes split: prod.splits)

lemma md5_bytes: "b \<in> set (md5 m) \<Longrightarrow> b < 256"
  by (auto simp: md5_def Let_def split: prod.splits dest: le_bytes_lt)

lemma hex_value_hex_digit: "d < 16 \<Longrightarrow> hex_value (hex_digit d) = Some d"
  by (auto simp: hex_value_def hex_digit_def Let_def)

lemma int16_digits_hex:
  "\<forall>b\<in>set bs. b < 256 \<Longrightarrow>
   int16_digits acc (concat (map hex_byte bs)) = Some (foldl (\<lambda>a b. 256 * a + b) acc bs)"
proof (induction bs arbitrary: acc)
  case Nil
  then show ?case by simp
next
  case (Cons b bs)
  have b: "b < 256" using Cons.prems by simp
  then have "b div 16 < 16" "b mod 16 < 16" by auto
  then have "int16_digits acc (hex_byte b @ concat (map hex_byte bs)) =
    int16_digits (16 * (16 * acc + b div 16) + b mod 16) (concat (map hex_byte bs))"
    by (simp add: hex_byte_def hex_value_hex_digit)
  moreover have "16 * (16 * acc + b div 16) + b mod 16 = 256 * acc + b" by presburger
  ultimately show ?case using Cons by (simp add: add.commute)
qed

lemma length_hex: "length (concat (map hex_byte bs)) = 2 * length bs"
  by (induction bs) (simp_all add: hex_byte_def)

lemma take_hex: "take (2 * n) (concat (map hex_byte bs)) = concat (map hex_byte (take n bs))"
proof (induction bs arbitrary: n)
  case Nil
  then show ?case by simp
next
  case (Cons b bs)
  then show ?case by (cases n) (simp_all add: hex_byte_def)
qed

lemma prompt_hash_eq: "prompt_hash prompt = Inr (be_int (take 4 (md5 (encode prompt))))"
proof -
  let ?d = "md5 (encode prompt)"
  have t: "take 8 (hexdigest (encode prompt)) = concat (map hex_byte (take 4 ?d))"
    using take_hex [of 4 ?d] by (simp add: hexdigest_def)
  have "length (concat (map hex_byte (take 4 ?d))) = 8"
    by (simp add: length_hex length_md5)
  then have ne: "concat (map hex_byte (take 4 ?d)) \<noteq> []"
    by (metis length_0_conv zero_neq_numeral)
  have "\<forall>b\<in>set (take 4 ?d). b < 256"
    using md5_bytes [of _ "encode prompt"] by (auto dest: in_set_takeD)
  then have "int16_digits 0 (concat (map hex_byte (take 4 ?d))) = Some (be_int (take 4 ?d))"
    unfolding be_int_def by (rule int16_digits_hex)
  then show ?thesis using ne by (simp add: prompt_hash_def t int16_def)
qed

lemma hash_image_eq:
  "hash_image prompt =
     Inr (map snd sample_images ! (be_int (take 4 (md5 (encode prompt))) mod 10))"
proof -
  have "sample_images \<noteq> []" using length_sample_images by auto
  then show ?thesis
    by (simp add: hash_image_def prompt_hash_eq length_sample_images Let_def)
qed

lemma hash_image_in_table:
  "hash_image prompt = Inr u \<Longrightarrow> u \<in> set (map snd sample_images)"
proof -
  assume "hash_image prompt = Inr u"
  then have "u = map snd sample_images ! (be_int (take 4 (md5 (encode prompt))) mod 10)"
    by (simp add: hash_image_eq)
  moreover have "be_int (take 4 (md5 (encode prompt))) mod 10 < length (map snd sample_images)"
    by (simp add: length_sample_images)
  ultimately show ?thesis using nth_mem by blast
qed

section \<open>Properties of the classifier\<close>

lemma select_image_cases:
  "select_image items pl d = d \<or> select_image items pl d \<in> set (map snd items)"
  by (induction items pl d rule: select_image.induct) auto

lemma mcp_keyword:
  assumes "i < length sample_images"
    and "contains (fst (sample_images ! i)) (lower prompt)"
    and "\<forall>j<i. \<not> contains (fst (sample_images ! j)) (lower prompt)"
  shows "generate_image_mcp prompt a q f t =
           McpSuccess (snd (sample_images ! i))
             [(''prompt'', prompt), (''aspect_ratio'', a), (''quality'', q),
              (''format'', f), (''generation_time'', t), (''source'', ''sample_images'')]"
proof -
  have sel: "select_image sample_images (lower prompt) default_image = snd (sample_images ! i)"
    using assms by (rule select_image_first)
  have "snd (sample_images ! i) \<in> set (map snd sample_images)"
    using assms(1) by simp
  then have "snd (sample_images ! i) \<noteq> default_image"
    using default_not_in_table by metis
  then show ?thesis by (simp add: generate_image_mcp_def sel)
qed


lemma mcp_success:
  "\<exists>u. generate_image_mcp prompt a q f t =
           McpSuccess u
             [(''prompt'', prompt), (''aspect_ratio'', a), (''quality'', q),
              (''format'', f), (''generation_time'', t), (''source'', ''sample_images'')]
        \<and> u \<in> set (map snd sample_images)"
proof (cases "select_image sample_images (lower prompt) default_image = default_image")
  case True
  have "be_int (take 4 (md5 (encode prompt))) mod 10 < length (map snd sample_images)"
    by (simp add: length_sample_images)
  then have "map snd sample_images ! (be_int (take 4 (md5 (encode prompt))) mod 10)
      \<in> set (map snd sample_images)" by (rule nth_mem)
  then show ?thesis using True by (simp add: generate_image_mcp_def hash_image_eq)
next
  case False
  then have "select_image sample_images (lower prompt) default_image \<in> set (map snd sample_images)"
    using select_image_cases [of sample_images "lower prompt" default_image] by simp
  then show ?thesis using False by (simp add: generate_image_mcp_def)
qed

text \<open>
  Claim C1. A prompt whose lower-cased text contains a keyword of the table (whatever
  text \<open>pre\<close> and \<open>post\<close> surrounds it) makes \<open>generate_image_mcp\<close> succeed with the
  URL of the first keyword, in the order of declaration of the table, that occurs in the
  lower-cased prompt. The order is sunset, mountains, abstract, geometric, nature,
  minimal, gradient, neon, artistic, space.
\<close>

theorem generate_image_mcp_first_keyword:
  assumes "k \<in> set (map fst sample_images)"
    and "lower prompt = pre @ k @ post"
  shows "map fst sample_images =
           [''sunset'', ''mountains'', ''abstract'', ''geometric'', ''nature'', ''minimal'',
            ''gradient'', ''neon'', ''artistic'', ''space'']
         \<and> (\<exists>i<length sample_images.
               contains (fst (sample_images ! i)) (lower prompt) \<and>
               (\<forall>j<i. \<not> contains (fst (sample_images ! j)) (lower prompt)) \<and>
               generate_image_mcp prompt aspect_ratio quality output_format gen_time =
                 McpSuccess (snd (sample_images ! i))
                   [(''prompt'', prompt), (''aspect_ratio'', aspect_ratio),
                    (''quality'', quality), (''format'', output_format),
                    (''generation_time'', gen_time), (''source'', ''sample_images'')])"
proof
  show "map fst sample_images =
           [''sunset'', ''mountains'', ''abstract'', ''geometric'', ''nature'', ''minimal'',
            ''gradient'', ''neon'', ''artistic'', ''space'']"
    by (simp add: sample_images_def)
next
  have "contains k (lower prompt)" using assms(2) contains_iff by blast
  then have "\<exists>k\<in>set (map fst sample_images). contains k (lower prompt)"
    using assms(1) by blast
  then obtain i where i: "i < length sample_images"
    "contains (fst (sample_images ! i)) (lower prompt)"
    "\<forall>j<i. \<not> contains (fst (sample_images ! j)) (lower prompt)"
    using first_match_exists by blast
  then show "\<exists>i<length sample_images.
               contains (fst (sample_images ! i)) (lower prompt) \<and>
               (\<forall>j<i. \<not> contains (fst (sample_images ! j)) (lower prompt)) \<and>
               generate_image_mcp prompt aspect_ratio quality output_format gen_time =
                 McpSuccess (snd (sample_images ! i))
                   [(''prompt'', prompt), (''aspect_ratio'', aspect_ratio),
                    (''quality'', quality), (''format'', output_format),
                    (''generation_time'', gen_time), (''source'', ''sample_images'')]"
    using mcp_keyword [OF i] by blast
qed

theorem generate_image_mcp_first_keyword_witness:
  "generate_image_mcp ''Sunset over Mountains'' ''9:16'' ''1'' ''webp'' ''2025-01-01T00:00:00'' =
     McpSuccess ''https://images.unsplash.com/photo-1506905925346-21bda4d32df4?w=400&h=711&fit=crop&crop=center''
       [(''prompt'', ''Sunset over Mountains''), (''aspect_ratio'', ''9:16''),
        (''quality'', ''1''), (''format'', ''webp''),
        (''generation_time'', ''2025-01-01T00:00:00''), (''source'', ''sample_images'')]"
proof -
  have k: "''sunset'' \<in> set (map fst sample_images)" by (simp add: sample_images_def)
  have l: "lower ''Sunset over Mountains'' = [] @ ''sunset'' @ '' over mountains''"
    by (simp add: lower_def lower_char_def char_of_def bit_Suc_0_iff)
  obtain i where i: "contains (fst (sample_images ! i)) (lower ''Sunset over Mountains'')"
    "\<forall>j<i. \<not> contains (fst (sample_images ! j)) (lower ''Sunset over Mountains'')"
    "generate_image_mcp ''Sunset over Mountains'' ''9:16'' ''1'' ''webp'' ''2025-01-01T00:00:00'' =
       McpSuccess (snd (sample_images ! i))
         [(''prompt'', ''Sunset over Mountains''), (''aspect_ratio'', ''9:16''),
          (''quality'', ''1''), (''format'', ''webp''),
          (''generation_time'', ''2025-01-01T00:00:00''), (''source'', ''sample_images'')]"
    using generate_image_mcp_first_keyword [OF k l, of "''9:16''" "''1''" "''webp''" "''2025-01-01T00:00:00''"] by blast
  have "contains (fst (sample_images ! 0)) (lower ''Sunset over Mountains'')"
    by (simp add: sample_images_def l)
  then have "i = 0" using i(2) by (cases i) auto
  then show ?thesis using i(3) by (simp add: sample_images_def)
qed



text \<open>
  Claim C9. Every call of \<open>generate_image_mcp\<close> succeeds, and the URL it returns is one of
  the ten values of the table; the default URL is never returned, since a prompt without
  keyword goes on to the hash fallback over the table's values.
\<close>

theorem generate_image_mcp_never_default:
  "\<exists>u meta. generate_image_mcp prompt aspect_ratio quality output_format gen_time =
       McpSuccess u meta
     \<and> u \<in> set (map snd sample_images) \<and> u \<noteq> default_image"
  using mcp_success [of prompt aspect_ratio quality output_format gen_time]
    default_not_in_table by metis

section \<open>Properties of the wallpaper request handler\<close>

lemmas string_eval = lower_def lower_char_def char_of_def bit_Suc_0_iff

lemma contains_sep_Cons:
  "c \<notin> set k \<Longrightarrow> k \<noteq> [] \<Longrightarrow> contains k (c # ys) = contains k ys"
  using contains_sep [of c k "[]" ys] by simp

lemma enhanced_contains:
  assumes "k \<in> set (map fst sample_images)"
  shows "contains k (lower (enhanced_prompt request)) =
           (contains k (lower (req_prompt request)) \<or> contains k (lower (req_style request))
            \<or> contains k (lower (req_aspect_ratio request)))"
proof -
  have "k \<in> {''sunset'', ''mountains'', ''abstract'', ''geometric'', ''nature'', ''minimal'',
            ''gradient'', ''neon'', ''artistic'', ''space''}"
    using assms by (simp add: sample_images_def)
  then show ?thesis
    by (elim insertE emptyE)
       (simp_all add: enhanced_prompt_def string_eval contains_sep)
qed

lemma keys_eq:
  "map fst sample_images =
     [''sunset'', ''mountains'', ''abstract'', ''geometric'', ''nature'', ''minimal'',
      ''gradient'', ''neon'', ''artistic'', ''space'']"
  by (simp add: sample_images_def)

lemma keyword_lower: "k \<in> set (map fst sample_images) \<Longrightarrow> lower k = k"
  unfolding keys_eq by (auto simp: string_eval)

lemma keyword_in_keyword:
  assumes "k \<in> set (map fst sample_images)" and "k' \<in> set (map fst sample_images)"
    and "contains k' k"
  shows "k' = k"
proof -
  have "\<forall>k\<in>set (map fst sample_images). \<forall>k'\<in>set (map fst sample_images).
          contains k' k \<longrightarrow> k' = k"
    unfolding keys_eq by simp
  then show ?thesis using assms by blast
qed

lemma contains_refl: "contains k k"
proof -
  have "k = [] @ k @ []" by simp
  then show ?thesis using contains_iff by blast
qed

lemma distinct_keys: "distinct (map fst sample_images)"
  unfolding keys_eq by simp

lemma gw_fault:
  assumes "insert_fault e = Some msg"
  shows "generate_wallpaper e ws request = (failure_response request msg, ws)"
proof -
  obtain u where
    "generate_image_mcp (enhanced_prompt request) (req_aspect_ratio request)
            (if req_quality request = ''high'' then ''1'' else ''0.25'') ''webp''
            (generation_time e) =
          McpSuccess u
            [(''prompt'', enhanced_prompt request),
             (''aspect_ratio'', req_aspect_ratio request),
             (''quality'', if req_quality request = ''high'' then ''1'' else ''0.25''),
             (''format'', ''webp''), (''generation_time'', generation_time e),
             (''source'', ''sample_images'')]"
    using mcp_success by blast
  then show ?thesis by (simp add: generate_wallpaper_def insert_one_def assms)
qed

lemma gw_style_keyword:
  assumes i: "i < length sample_images"
    and style: "req_style request = fst (sample_images ! i)"
    and prompt: "\<forall>k\<in>set (map fst sample_images). \<not> contains k (lower (req_prompt request))"
    and ratio: "\<forall>j<i. \<not> contains (fst (sample_images ! j)) (lower (req_aspect_ratio request))"
  shows "generate_image_mcp (enhanced_prompt request) a q f t =
           McpSuccess (snd (sample_images ! i))
             [(''prompt'', enhanced_prompt request), (''aspect_ratio'', a), (''quality'', q),
              (''format'', f), (''generation_time'', t), (''source'', ''sample_images'')]"
proof (rule mcp_keyword [OF i])
  have ki: "fst (sample_images ! i) \<in> set (map fst sample_images)" using i by simp
  have "contains (fst (sample_images ! i)) (lower (req_style request))"
    using keyword_lower [OF ki] contains_refl by (simp add: style)
  then show "contains (fst (sample_images ! i)) (lower (enhanced_prompt request))"
    by (simp add: enhanced_contains [OF ki])
  show "\<forall>j<i. \<not> contains (fst (sample_images ! j)) (lower (enhanced_prompt request))"
  proof (intro allI impI)
    fix j assume j: "j < i"
    then have kj: "fst (sample_images ! j) \<in> set (map fst sample_images)" using i by simp
    have "map fst sample_images ! j \<noteq> map fst sample_images ! i"
      using distinct_keys i j by (simp add: nth_eq_iff_index_eq del: nth_map)
    then have ne: "fst (sample_images ! j) \<noteq> fst (sample_images ! i)" using i j by simp
    have "\<not> contains (fst (sample_images ! j)) (fst (sample_images ! i))"
      using keyword_in_keyword [OF ki kj] ne by blast
    then have "\<not> contains (fst (sample_images ! j)) (lower (req_style request))"
      using keyword_lower [OF ki] by (simp add: style)
    moreover have "\<not> contains (fst (sample_images ! j)) (lower (req_prompt request))"
      using prompt kj by blast
    moreover have "\<not> contains (fst (sample_images ! j)) (lower (req_aspect_ratio request))"
      using ratio j by blast
    ultimately show "\<not> contains (fst (sample_images ! j)) (lower (enhanced_prompt request))"
      by (simp add: enhanced_contains [OF kj])
  qed
qed

lemma gw_ok_summary:
  assumes "insert_fault e = None"
  shows "resp_success (fst (generate_wallpaper e ws request))
       \<and> resp_error (fst (generate_wallpaper e ws request)) = None
       \<and> resp_wallpaper_url (fst (generate_wallpaper e ws request)) \<in> set (map snd sample_images)
       \<and> (\<exists>d. snd (generate_wallpaper e ws request) = ws @ [d]
              \<and> doc_wallpaper_url d = resp_wallpaper_url (fst (generate_wallpaper e ws request))
              \<and> doc_prompt d = req_prompt request
              \<and> doc_timestamp d = utcnow e
              \<and> doc__id d = Some (length ws))"
proof -
  obtain u where u: "u \<in> set (map snd sample_images)"
    "generate_image_mcp (enhanced_prompt request) (req_aspect_ratio request)
            (if req_quality request = ''high'' then ''1'' else ''0.25'') ''webp''
            (generation_time e) =
          McpSuccess u
            [(''prompt'', enhanced_prompt request),
             (''aspect_ratio'', req_aspect_ratio request),
             (''quality'', if req_quality request = ''high'' then ''1'' else ''0.25''),
             (''format'', ''webp''), (''generation_time'', generation_time e),
             (''source'', ''sample_images'')]"
    using mcp_success by blast
  show ?thesis
    using u(1) by (simp add: generate_wallpaper_def u(2) insert_one_def assms)
qed


lemmas wallpaper_eval =
  generate_wallpaper_def generate_image_mcp_def enhanced_prompt_def insert_one_def
  failure_response_def sample_images_def default_image_def string_eval


text \<open>
  Claim C5. A call of \<open>generate_wallpaper\<close> that answers with success has appended exactly
  one document (the record of this request) to the \<open>wallpapers\<close> collection; a call that
  answers with failure has left the collection as it was, and its response carries the
  empty URL and the message of the fault that made it fail.
\<close>

theorem generate_wallpaper_persistence:
  assumes "generate_wallpaper e wallpapers request = (response, wallpapers')"
  shows "(resp_success response \<longrightarrow>
            (\<exists>d. wallpapers' = wallpapers @ [d] \<and> doc_prompt d = req_prompt request
               \<and> doc_wallpaper_url d = resp_wallpaper_url response))
       \<and> (\<not> resp_success response \<longrightarrow>
            wallpapers' = wallpapers \<and> resp_wallpaper_url response = []
            \<and> (\<exists>msg. insert_fault e = Some msg \<and> resp_error response = Some msg))"
proof (cases "insert_fault e")
  case None
  have g: "fst (generate_wallpaper e wallpapers request) = response"
    "snd (generate_wallpaper e wallpapers request) = wallpapers'"
    using assms by simp_all
  have "resp_success response
      \<and> (\<exists>d. wallpapers' = wallpapers @ [d] \<and> doc_prompt d = req_prompt request
             \<and> doc_wallpaper_url d = resp_wallpaper_url response)"
    using gw_ok_summary [OF None, of wallpapers request] unfolding g by blast
  then show ?thesis by simp
next
  case (Some msg)
  have "response = failure_response request msg" "wallpapers' = wallpapers"
    using gw_fault [OF Some, of wallpapers request] assms by simp_all
  then show ?thesis using Some by (simp add: failure_response_def)
qed

theorem generate_wallpaper_persistence_witness:
  "resp_success (fst (generate_wallpaper
       \<lparr>uuid4 = ''0b1f6c1e-7a55-4d0c-9d53-0c8a3f1f2a11'', utcnow = 1700000000000,
        generation_time = ''2023-11-14T22:13:20'', insert_fault = None\<rparr> []
       \<lparr>req_prompt = ''Sunset over mountains'', req_style = ''modern'',
        req_aspect_ratio = ''9:16'', req_quality = ''high''\<rparr>))
   \<and> length (snd (generate_wallpaper
       \<lparr>uuid4 = ''0b1f6c1e-7a55-4d0c-9d53-0c8a3f1f2a11'', utcnow = 1700000000000,
        generation_time = ''2023-11-14T22:13:20'', insert_fault = None\<rparr> []
       \<lparr>req_prompt = ''Sunset over mountains'', req_style = ''modern'',
        req_aspect_ratio = ''9:16'', req_quality = ''high''\<rparr>)) = 1
   \<and> \<not> resp_success (fst (generate_wallpaper
       \<lparr>uuid4 = ''0b1f6c1e-7a55-4d0c-9d53-0c8a3f1f2a11'', utcnow = 1700000000000,
        generation_time = ''2023-11-14T22:13:20'', insert_fault = Some ''connection refused''\<rparr> []
       \<lparr>req_prompt = ''Sunset over mountains'', req_style = ''modern'',
        req_aspect_ratio = ''9:16'', req_quality = ''high''\<rparr>))
   \<and> snd (generate_wallpaper
       \<lparr>uuid4 = ''0b1f6c1e-7a55-4d0c-9d53-0c8a3f1f2a11'', utcnow = 1700000000000,
        generation_time = ''2023-11-14T22:13:20'', insert_fault = Some ''connection refused''\<rparr> []
       \<lparr>req_prompt = ''Sunset over mountains'', req_style = ''modern'',
        req_aspect_ratio = ''9:16'', req_quality = ''high''\<rparr>) = []
   \<and> resp_error (fst (generate_wallpaper
       \<lparr>uuid4 = ''0b1f6c1e-7a55-4d0c-9d53-0c8a3f1f2a11'', utcnow = 1700000000000,
        generation_time = ''2023-11-14T22:13:20'', insert_fault = Some ''connection refused''\<rparr> []
       \<lparr>req_prompt = ''Sunset over mountains'', req_style = ''modern'',
        req_aspect_ratio = ''9:16'', req_quality = ''high''\<rparr>)) = Some ''connection refused''"
  (is "resp_success (fst ?ok) \<and> length (snd ?ok) = 1 \<and> \<not> resp_success (fst ?ko)
       \<and> snd ?ko = [] \<and> resp_error (fst ?ko) = Some ''connection refused''")
proof -
  have ok: "resp_success (fst ?ok)" by (simp add: wallpaper_eval)
  have ko: "\<not> resp_success (fst ?ko)" by (simp add: wallpaper_eval)
  have "\<exists>d. snd ?ok = [] @ [d]"
    using generate_wallpaper_persistence [OF prod.collapse [symmetric], of _ "[]"] ok by blast
  then have "length (snd ?ok) = 1" by auto
  moreover have "snd ?ko = [] \<and> (\<exists>msg. Some ''connection refused'' = Some msg
      \<and> resp_error (fst ?ko) = Some msg)"
    using generate_wallpaper_persistence [OF prod.collapse [symmetric], of _ "[]"] ko
    by (metis env.select_convs(4))
  ultimately show ?thesis using ok ko by simp
qed

text \<open>
  Claim C7. The handler calls the classifier on the enhanced prompt
  \<open>{prompt}, {style} style, phone wallpaper, {aspect_ratio} aspect ratio, high quality,
  detailed, vibrant colors\<close>, with the quality token \<open>1\<close> when the quality is \<open>high\<close> and
  \<open>0.25\<close> otherwise, and with the format \<open>webp\<close>: when the record is stored, the metadata
  and the URL of the response are those of that very classifier call, and the metadata
  echo these arguments.
\<close>

theorem generate_wallpaper_classifier_arguments:
  assumes "insert_fault e = None"
  shows "resp_metadata (fst (generate_wallpaper e wallpapers request)) =
           [(''prompt'', req_prompt request @ '', '' @ req_style request
                @ '' style, phone wallpaper, '' @ req_aspect_ratio request
                @ '' aspect ratio, high quality, detailed, vibrant colors''),
            (''aspect_ratio'', req_aspect_ratio request),
            (''quality'', if req_quality request = ''high'' then ''1'' else ''0.25''),
            (''format'', ''webp''), (''generation_time'', generation_time e),
            (''source'', ''sample_images'')]
       \<and> resp_metadata (fst (generate_wallpaper e wallpapers request)) =
           mcp_metadata (generate_image_mcp
             (req_prompt request @ '', '' @ req_style request
                @ '' style, phone wallpaper, '' @ req_aspect_ratio request
                @ '' aspect ratio, high quality, detailed, vibrant colors'')
             (req_aspect_ratio request)
             (if req_quality request = ''high'' then ''1'' else ''0.25'') ''webp''
             (generation_time e))
       \<and> resp_wallpaper_url (fst (generate_wallpaper e wallpapers request)) =
           mcp_url (generate_image_mcp
             (req_prompt request @ '', '' @ req_style request
                @ '' style, phone wallpaper, '' @ req_aspect_ratio request
                @ '' aspect ratio, high quality, detailed, vibrant colors'')
             (req_aspect_ratio request)
             (if req_quality request = ''high'' then ''1'' else ''0.25'') ''webp''
             (generation_time e))"
proof -
  obtain u where u:
    "generate_image_mcp (enhanced_prompt request) (req_aspect_ratio request)
            (if req_quality request = ''high'' then ''1'' else ''0.25'') ''webp''
            (generation_time e) =
          McpSuccess u
            [(''prompt'', enhanced_prompt request),
             (''aspect_ratio'', req_aspect_ratio request),
             (''quality'', if req_quality request = ''high'' then ''1'' else ''0.25''),
             (''format'', ''webp''), (''generation_time'', generation_time e),
             (''source'', ''sample_images'')]"
    using mcp_success by blast
  have e: "enhanced_prompt request = req_prompt request @ '', '' @ req_style request
                @ '' style, phone wallpaper, '' @ req_aspect_ratio request
                @ '' aspect ratio, high quality, detailed, vibrant colors''"
    by (simp add: enhanced_prompt_def)
  have "resp_metadata (fst (generate_wallpaper e wallpapers request)) =
      [(''prompt'', enhanced_prompt request),
             (''aspect_ratio'', req_aspect_ratio request),
             (''quality'', if req_quality request = ''high'' then ''1'' else ''0.25''),
             (''format'', ''webp''), (''generation_time'', generation_time e),
             (''source'', ''sample_images'')]
    \<and> resp_wallpaper_url (fst (generate_wallpaper e wallpapers request)) = u"
    by (simp add: generate_wallpaper_def u insert_one_def assms)
  then show ?thesis using u unfolding e by simp
qed

theorem generate_wallpaper_classifier_arguments_witness:
  "map_of (resp_metadata (fst (generate_wallpaper
       \<lparr>uuid4 = ''0b1f6c1e-7a55-4d0c-9d53-0c8a3f1f2a11'', utcnow = 1700000000000,
        generation_time = ''2023-11-14T22:13:20'', insert_fault = None\<rparr> []
       \<lparr>req_prompt = ''Misty forest'', req_style = ''modern'',
        req_aspect_ratio = ''9:16'', req_quality = ''low''\<rparr>))) ''prompt'' =
     Some ''Misty forest, modern style, phone wallpaper, 9:16 aspect ratio, high quality, detailed, vibrant colors''
   \<and> map_of (resp_metadata (fst (generate_wallpaper
       \<lparr>uuid4 = ''0b1f6c1e-7a55-4d0c-9d53-0c8a3f1f2a11'', utcnow = 1700000000000,
        generation_time = ''2023-11-14T22:13:20'', insert_fault = None\<rparr> []
       \<lparr>req_prompt = ''Misty forest'', req_style = ''modern'',
        req_aspect_ratio = ''9:16'', req_quality = ''low''\<rparr>))) ''quality'' = Some ''0.25''
   \<and> map_of (resp_metadata (fst (generate_wallpaper
       \<lparr>uuid4 = ''0b1f6c1e-7a55-4d0c-9d53-0c8a3f1f2a11'', utcnow = 1700000000000,
        generation_time = ''2023-11-14T22:13:20'', insert_fault = None\<rparr> []
       \<lparr>req_prompt = ''Misty forest'', req_style = ''modern'',
        req_aspect_ratio = ''9:16'', req_quality = ''low''\<rparr>))) ''format'' = Some ''webp''"
  using generate_wallpaper_classifier_arguments
    [of "\<lparr>uuid4 = ''0b1f6c1e-7a55-4d0c-9d53-0c8a3f1f2a11'', utcnow = 1700000000000,
        generation_time = ''2023-11-14T22:13:20'', insert_fault = None\<rparr>" "[]"
       "\<lparr>req_prompt = ''Misty forest'', req_style = ''modern'',
        req_aspect_ratio = ''9:16'', req_quality = ''low''\<rparr>"]
  by simp

text \<open>
  Claim C8. The URL of every response of \<open>generate_wallpaper\<close> is a value of the static
  image table or the empty string, and so is the URL of every document in the collection
  after the call, provided this held of the collection before (as it does of the empty
  collection).
\<close>

theorem generate_wallpaper_url_enumerated:
  assumes "generate_wallpaper e wallpapers request = (response, wallpapers')"
    and "\<forall>d\<in>set wallpapers.
           doc_wallpaper_url d \<in> set (map snd sample_images) \<or> doc_wallpaper_url d = []"
  shows "(resp_wallpaper_url response \<in> set (map snd sample_images)
            \<or> resp_wallpaper_url response = [])
       \<and> (\<forall>d\<in>set wallpapers'.
            doc_wallpaper_url d \<in> set (map snd sample_images) \<or> doc_wallpaper_url d = [])"
proof (cases "insert_fault e")
  case None
  have g: "fst (generate_wallpaper e wallpapers request) = response"
    "snd (generate_wallpaper e wallpapers request) = wallpapers'"
    using assms(1) by simp_all
  have "resp_wallpaper_url response \<in> set (map snd sample_images)
      \<and> (\<exists>d. wallpapers' = wallpapers @ [d]
             \<and> doc_wallpaper_url d = resp_wallpaper_url response)"
    using gw_ok_summary [OF None, of wallpapers request] unfolding g by blast
  then show ?thesis using assms(2) by (auto simp del: set_map)
next
  case (Some msg)
  have "response = failure_response request msg" "wallpapers' = wallpapers"
    using gw_fault [OF Some, of wallpapers request] assms(1) by simp_all
  then show ?thesis using assms(2) by (simp add: failure_response_def)
qed

theorem generate_wallpaper_url_enumerated_witness:
  "resp_wallpaper_url (fst (generate_wallpaper
       \<lparr>uuid4 = ''0b1f6c1e-7a55-4d0c-9d53-0c8a3f1f2a11'', utcnow = 1700000000000,
        generation_time = ''2023-11-14T22:13:20'', insert_fault = None\<rparr> []
       \<lparr>req_prompt = ''Misty forest'', req_style = ''modern'',
        req_aspect_ratio = ''9:16'', req_quality = ''low''\<rparr>))
     \<in> set (map snd sample_images) \<union> {[]}
   \<and> doc_wallpaper_url ` set (snd (generate_wallpaper
       \<lparr>uuid4 = ''0b1f6c1e-7a55-4d0c-9d53-0c8a3f1f2a11'', utcnow = 1700000000000,
        generation_time = ''2023-11-14T22:13:20'', insert_fault = None\<rparr> []
       \<lparr>req_prompt = ''Misty forest'', req_style = ''modern'',
        req_aspect_ratio = ''9:16'', req_quality = ''low''\<rparr>))
     \<subseteq> set (map snd sample_images) \<union> {[]}"
  using generate_wallpaper_url_enumerated
    [where e = "\<lparr>uuid4 = ''0b1f6c1e-7a55-4d0c-9d53-0c8a3f1f2a11'', utcnow = 1700000000000,
        generation_time = ''2023-11-14T22:13:20'', insert_fault = None\<rparr>"
       and wallpapers = "[]"
       and request = "\<lparr>req_prompt = ''Misty forest'', req_style = ''modern'',
        req_aspect_ratio = ''9:16'', req_quality = ''low''\<rparr>",
     OF prod.collapse [symmetric]]
  by (auto simp del: set_map)

text \<open>
  Claim C10, as stated, fails: the enhanced prompt embeds the aspect ratio as well as the
  style, so a keyword in the aspect ratio that is declared earlier in the table wins.
  Here the prompt \<open>calm lake\<close> has no keyword and the style is \<open>nature\<close>, yet the aspect
  ratio \<open>sunset\<close> selects the URL of \<open>sunset\<close>.
\<close>

theorem generate_wallpaper_style_keyword_counterexample:
  "\<not> contains ''sunset'' (lower ''calm lake'')
   \<and> \<not> contains ''mountains'' (lower ''calm lake'')
   \<and> \<not> contains ''abstract'' (lower ''calm lake'')
   \<and> \<not> contains ''geometric'' (lower ''calm lake'')
   \<and> \<not> contains ''nature'' (lower ''calm lake'')
   \<and> \<not> contains ''minimal'' (lower ''calm lake'')
   \<and> \<not> contains ''gradient'' (lower ''calm lake'')
   \<and> \<not> contains ''neon'' (lower ''calm lake'')
   \<and> \<not> contains ''artistic'' (lower ''calm lake'')
   \<and> \<not> contains ''space'' (lower ''calm lake'')
   \<and> (''nature'', ''https://images.unsplash.com/photo-1441974231531-c6227db76b6e?w=400&h=711&fit=crop&crop=center'')
        \<in> set sample_images
   \<and> resp_wallpaper_url (fst (generate_wallpaper
         \<lparr>uuid4 = ''0b1f6c1e-7a55-4d0c-9d53-0c8a3f1f2a11'', utcnow = 1700000000000,
          generation_time = ''2023-11-14T22:13:20'', insert_fault = None\<rparr> []
         \<lparr>req_prompt = ''calm lake'', req_style = ''nature'',
          req_aspect_ratio = ''sunset'', req_quality = ''high''\<rparr>))
       = ''https://images.unsplash.com/photo-1506905925346-21bda4d32df4?w=400&h=711&fit=crop&crop=center''
   \<and> resp_wallpaper_url (fst (generate_wallpaper
         \<lparr>uuid4 = ''0b1f6c1e-7a55-4d0c-9d53-0c8a3f1f2a11'', utcnow = 1700000000000,
          generation_time = ''2023-11-14T22:13:20'', insert_fault = None\<rparr> []
         \<lparr>req_prompt = ''calm lake'', req_style = ''nature'',
          req_aspect_ratio = ''sunset'', req_quality = ''high''\<rparr>))
       \<noteq> ''https://images.unsplash.com/photo-1441974231531-c6227db76b6e?w=400&h=711&fit=crop&crop=center''"
  by (simp add: wallpaper_eval)

text \<open>
  Claim C10, amended. When the prompt contains no keyword, the style equals the keyword at
  position \<open>i\<close> of the table, the aspect ratio contains (case-insensitively) no keyword
  declared before position \<open>i\<close>, and the store accepts the write, the response is a
  success whose URL is the one of that keyword.
\<close>

theorem generate_wallpaper_style_keyword:
  assumes "i < length sample_images"
    and "req_style request = fst (sample_images ! i)"
    and "\<forall>k\<in>set (map fst sample_images). \<not> contains k (lower (req_prompt request))"
    and "\<forall>j<i. \<not> contains (fst (sample_images ! j)) (lower (req_aspect_ratio request))"
    and "insert_fault e = None"
  shows "resp_success (fst (generate_wallpaper e wallpapers request))
       \<and> resp_wallpaper_url (fst (generate_wallpaper e wallpapers request)) =
           snd (sample_images ! i)"
  using gw_style_keyword [OF assms(1-4)]
  by (simp add: generate_wallpaper_def insert_one_def assms(5))

theorem generate_wallpaper_style_keyword_witness:
  "resp_wallpaper_url (fst (generate_wallpaper
         \<lparr>uuid4 = ''0b1f6c1e-7a55-4d0c-9d53-0c8a3f1f2a11'', utcnow = 1700000000000,
          generation_time = ''2023-11-14T22:13:20'', insert_fault = None\<rparr> []
         \<lparr>req_prompt = ''calm lake'', req_style = ''nature'',
          req_aspect_ratio = ''9:16'', req_quality = ''high''\<rparr>))
     = ''https://images.unsplash.com/photo-1441974231531-c6227db76b6e?w=400&h=711&fit=crop&crop=center''"
proof -
  let ?r = "\<lparr>req_prompt = ''calm lake'', req_style = ''nature'',
          req_aspect_ratio = ''9:16'', req_quality = ''high''\<rparr>"
  let ?e = "\<lparr>uuid4 = ''0b1f6c1e-7a55-4d0c-9d53-0c8a3f1f2a11'', utcnow = 1700000000000,
          generation_time = ''2023-11-14T22:13:20'', insert_fault = None\<rparr>"
  have 1: "4 < length sample_images" by (simp add: sample_images_def)
  have 2: "req_style ?r = fst (sample_images ! 4)" by (simp add: sample_images_def)
  have 3: "\<forall>k\<in>set (map fst sample_images). \<not> contains k (lower (req_prompt ?r))"
    by (simp add: sample_images_def string_eval)
  have "\<forall>k\<in>set (map fst sample_images). \<not> contains k (lower (req_aspect_ratio ?r))"
    by (simp add: sample_images_def string_eval)
  then have 4: "\<forall>j<4. \<not> contains (fst (sample_images ! j)) (lower (req_aspect_ratio ?r))"
  proof (intro allI impI)
    fix j :: nat
    assume "j < 4"
    then have "j < length sample_images" using 1 by simp
    then have "fst (sample_images ! j) \<in> set (map fst sample_images)" by simp
    then show "\<not> contains (fst (sample_images ! j)) (lower (req_aspect_ratio ?r))"
      using \<open>\<forall>k\<in>set (map fst sample_images). \<not> contains k (lower (req_aspect_ratio ?r))\<close>
      by blast
  qed
  have 5: "insert_fault ?e = None" by simp
  show ?thesis
    using generate_wallpaper_style_keyword [OF 1 2 3 4 5, of "[]"]
    by (simp add: sample_images_def)
qed

section \<open>Properties of the history listing\<close>



lemma sorted_desc:
  "sorted_wrt (\<lambda>a b. doc_timestamp b \<le> doc_timestamp a)
     (sort_key (\<lambda>d. - doc_timestamp d) ws)"
proof -
  have "sorted (map (\<lambda>d. - doc_timestamp d) (sort_key (\<lambda>d. - doc_timestamp d) ws))"
    by (rule sorted_sort_key)
  then show ?thesis by (simp add: sorted_map)
qed






lemma history_members:
  "set (map del__id (find_sort_limit ws)) \<subseteq> del__id ` set ws"
proof -
  have "set (find_sort_limit ws) \<subseteq> set ws"
    unfolding find_sort_limit_def using set_take_subset [of 50 "sort_key (\<lambda>d. - doc_timestamp d) ws"]
    by simp
  then show ?thesis by auto
qed

text \<open>The documents left out are not newer than those returned.\<close>

lemma history_most_recent:
  assumes "d \<in> set (find_sort_limit ws)"
    and "d' \<in> set (drop 50 (sort_key (\<lambda>d. - doc_timestamp d) ws))"
  shows "doc_timestamp d' \<le> doc_timestamp d"
proof -
  let ?s = "sort_key (\<lambda>d. - doc_timestamp d) ws"
  have "sorted_wrt (\<lambda>a b. doc_timestamp b \<le> doc_timestamp a) (take 50 ?s @ drop 50 ?s)"
    using sorted_desc [of ws] by simp
  then show ?thesis using assms unfolding find_sort_limit_def sorted_wrt_append by blast
qed





section \<open>Properties of the agent proxy handler\<close>

lemmas chat_eval = chat_with_agent_def chat_try_def init_agents_def select_agent_def
  construction_fault_def execution_fault_def

lemma chat_with_agent_status_200:
  "\<exists>r g'. chat_with_agent eng g request = (HTTP200 r, g')"
  by (cases "chat_try eng g request" rule: prod.exhaust [case_names Pair])
     (auto simp: chat_with_agent_def split: sum.splits)

text \<open>
  Claim C3 says that a request for which no agent is initialised is answered with an
  HTTP-level 500. The handler raises \<open>HTTPException(500)\<close> inside its own \<open>try\<close> block, whose
  \<open>except Exception\<close> catches it: on a fresh process, a request with an agent type other
  than \<open>chat\<close> and \<open>search\<close> is answered with status 200 and a failure body, whatever the
  engine.
\<close>

theorem chat_with_agent_uninitialized_agent:
  "chat_with_agent eng \<lparr>search_agent = None, chat_agent = None\<rparr>
     \<lparr>message = ''hello'', agent_type = ''assistant''\<rparr> =
   (HTTP200 \<lparr>chat_success = False, chat_response = [], chat_agent_type = ''assistant'',
             chat_capabilities = [], chat_metadata = [],
             chat_error = Some ''500: Failed to initialize agent''\<rparr>,
    \<lparr>search_agent = None, chat_agent = None\<rparr>)"
  by (simp add: chat_eval char_of_def bit_Suc_0_iff)

text \<open>
  Claim C6, as stated, fails: the error string is the text of the exception, and that
  text may be empty. Here the constructor of the chat agent raises an exception that
  prints as the empty string, and the failure body carries the empty error string.
\<close>

theorem chat_with_agent_fault_counterexample:
  "construction_fault
     \<lparr>SearchAgent = Inl (Exception ''search engine unavailable''), ChatAgent = Inl (Exception [])\<rparr>
     \<lparr>search_agent = None, chat_agent = None\<rparr>
     \<lparr>message = ''hello'', agent_type = ''chat''\<rparr> (Exception [])
   \<and> str_exn (Exception []) = []
   \<and> fst (chat_with_agent
        \<lparr>SearchAgent = Inl (Exception ''search engine unavailable''), ChatAgent = Inl (Exception [])\<rparr>
        \<lparr>search_agent = None, chat_agent = None\<rparr>
        \<lparr>message = ''hello'', agent_type = ''chat''\<rparr>) =
      HTTP200 \<lparr>chat_success = False, chat_response = [], chat_agent_type = ''chat'',
               chat_capabilities = [], chat_metadata = [], chat_error = Some []\<rparr>"
  by (simp add: chat_eval)

text \<open>
  Claim C6, amended. When a constructor called for the request or the \<open>execute\<close> of the
  selected agent raises \<open>e\<close>, the handler answers with status 200 and the failure body
  whose error string is the text of \<open>e\<close> (non-empty exactly when that text is); no
  exception leaves the handler.
\<close>

theorem chat_with_agent_fault:
  assumes "construction_fault eng g request e \<or> execution_fault eng g request e"
  shows "\<exists>g'. chat_with_agent eng g request =
           (HTTP200 \<lparr>chat_success = False, chat_response = [],
                     chat_agent_type = agent_type request, chat_capabilities = [],
                     chat_metadata = [], chat_error = Some (str_exn e)\<rparr>, g')"
  using assms
proof
  assume "construction_fault eng g request e"
  then have "init_agents eng g request = Inl e"
    by (auto simp: construction_fault_def init_agents_def split: if_splits)
  then show ?thesis by (simp add: chat_with_agent_def chat_try_def)
next
  assume "execution_fault eng g request e"
  then obtain g' agent where "init_agents eng g request = Inr g'"
    "select_agent g' request = Some agent" "execute agent (message request) = Inl e"
    by (auto simp: execution_fault_def split: sum.splits option.splits)
  then show ?thesis by (simp add: chat_with_agent_def chat_try_def)
qed

theorem chat_with_agent_fault_witness:
  "fst (chat_with_agent
        \<lparr>SearchAgent = Inl (Exception ''search engine unavailable''),
         ChatAgent = Inl (Exception ''connection refused'')\<rparr>
        \<lparr>search_agent = None, chat_agent = None\<rparr>
        \<lparr>message = ''hello'', agent_type = ''chat''\<rparr>) =
      HTTP200 \<lparr>chat_success = False, chat_response = [], chat_agent_type = ''chat'',
               chat_capabilities = [], chat_metadata = [],
               chat_error = Some ''connection refused''\<rparr>
   \<and> fst (chat_with_agent
        \<lparr>SearchAgent = Inl (Exception ''search engine unavailable''),
         ChatAgent = Inr \<lparr>execute = (\<lambda>m. Inl (Exception ''model timed out'')),
                          get_capabilities = Inr [''chat'']\<rparr>\<rparr>
        \<lparr>search_agent = None, chat_agent = None\<rparr>
        \<lparr>message = ''hello'', agent_type = ''chat''\<rparr>) =
      HTTP200 \<lparr>chat_success = False, chat_response = [], chat_agent_type = ''chat'',
               chat_capabilities = [], chat_metadata = [],
               chat_error = Some ''model timed out''\<rparr>"
proof -
  let ?g = "\<lparr>search_agent = None, chat_agent = None\<rparr>"
  let ?r = "\<lparr>message = ''hello'', agent_type = ''chat''\<rparr>"
  let ?e1 = "\<lparr>SearchAgent = Inl (Exception ''search engine unavailable''),
         ChatAgent = Inl (Exception ''connection refused'')\<rparr>"
  let ?e2 = "\<lparr>SearchAgent = Inl (Exception ''search engine unavailable''),
         ChatAgent = Inr \<lparr>execute = (\<lambda>m. Inl (Exception ''model timed out'')),
                          get_capabilities = Inr [''chat'']\<rparr>\<rparr>"
  have 1: "construction_fault ?e1 ?g ?r (Exception ''connection refused'')
      \<or> execution_fault ?e1 ?g ?r (Exception ''connection refused'')"
    by (simp add: construction_fault_def)
  have 2: "construction_fault ?e2 ?g ?r (Exception ''model timed out'')
      \<or> execution_fault ?e2 ?g ?r (Exception ''model timed out'')"
    by (simp add: execution_fault_def init_agents_def select_agent_def)
  show ?thesis
    using chat_with_agent_fault [OF 1] chat_with_agent_fault [OF 2] by auto
qed

end
